theory Spec2Isabelle
  imports Complex_Main
begin

section \<open>Intercept prediction for two Keplerian orbits (src/twobody/intercept.c)\<close>

text \<open>
  The C source computes with \<^verbatim>\<open>double\<close>. The embedding reads every \<^verbatim>\<open>double\<close> as a
  real number: \<^verbatim>\<open>fmin\<close> and \<^verbatim>\<open>fmax\<close> are \<open>min\<close> and \<open>max\<close>, \<^verbatim>\<open>M_PI\<close> is \<open>pi\<close>,
  comparisons are the order of the reals. Rounding, infinities and NaN are outside the
  model. C \<^verbatim>\<open>int\<close> values are integers; the period counters of the time windower are
  kept within the range of \<^verbatim>\<open>int\<close>, and the model returns a fault where the source would
  leave that range. Arrays of doubles are lists, read with \<open>!\<close> at the indices the source
  uses.
\<close>

subsection \<open>Collaborators\<close>

type_synonym vec4d = "real \<times> real \<times> real \<times> real"

text \<open>
  \<^verbatim>\<open>struct orbit\<close> is declared in \<^verbatim>\<open>twobody/orbit.h\<close>. The sources read the fields
  \<^verbatim>\<open>major_axis\<close>, \<^verbatim>\<open>minor_axis\<close>, \<^verbatim>\<open>normal_axis\<close> and \<^verbatim>\<open>periapsis_time\<close> directly; the
  scalars are the ones of the orbit descriptor (gravity parameter, semi-latus rectum,
  eccentricity).
\<close>

record orbit =
  gravity_parameter :: real
  semi_latus_rectum :: real
  eccentricity :: real
  periapsis_time :: real
  major_axis :: vec4d
  minor_axis :: vec4d
  normal_axis :: vec4d

text \<open>
  The functions of \<^verbatim>\<open>math_utils.h\<close>, \<^verbatim>\<open>conic.h\<close>, \<^verbatim>\<open>anomaly.h\<close>, \<^verbatim>\<open>true_anomaly.h\<close>
  and \<^verbatim>\<open>orbit.h\<close> that \<^verbatim>\<open>intercept.c\<close> calls are parameters of the model: one record
  holds them, and every function of \<^verbatim>\<open>intercept.c\<close> takes it as its first argument.
  Theorems hold for every such record unless they say otherwise.
\<close>

record collaborators =
  zero :: "real \<Rightarrow> bool"
  sign :: "real \<Rightarrow> real"
  clamp :: "real \<Rightarrow> real \<Rightarrow> real \<Rightarrow> real"
  square :: "real \<Rightarrow> real"
  dot :: "vec4d \<Rightarrow> vec4d \<Rightarrow> real"
  cross :: "vec4d \<Rightarrow> vec4d \<Rightarrow> vec4d"
  mag :: "vec4d \<Rightarrow> real"
  orbit_radial :: "orbit \<Rightarrow> bool"
  orbit_elliptic :: "orbit \<Rightarrow> bool"
  orbit_gravity_parameter :: "orbit \<Rightarrow> real"
  orbit_semi_latus_rectum :: "orbit \<Rightarrow> real"
  orbit_eccentricity :: "orbit \<Rightarrow> real"
  orbit_periapsis_time :: "orbit \<Rightarrow> real"
  orbit_position_eccentric :: "orbit \<Rightarrow> real \<Rightarrow> vec4d"
  orbit_velocity_eccentric :: "orbit \<Rightarrow> real \<Rightarrow> vec4d"
  conic_apoapsis :: "real \<Rightarrow> real \<Rightarrow> real"
  conic_periapsis :: "real \<Rightarrow> real \<Rightarrow> real"
  conic_closed :: "real \<Rightarrow> bool"
  conic_circular :: "real \<Rightarrow> bool"
  conic_max_true_anomaly :: "real \<Rightarrow> real"
  conic_mean_motion :: "real \<Rightarrow> real \<Rightarrow> real \<Rightarrow> real"
  conic_periapsis_velocity :: "real \<Rightarrow> real \<Rightarrow> real \<Rightarrow> real"
  true_anomaly_from_radius :: "real \<Rightarrow> real \<Rightarrow> real \<Rightarrow> real"
  anomaly_mean_to_true :: "real \<Rightarrow> real \<Rightarrow> real"
  anomaly_true_to_mean :: "real \<Rightarrow> real \<Rightarrow> real"
  anomaly_mean_to_eccentric :: "real \<Rightarrow> real \<Rightarrow> real"

subsection \<open>The range merger: \<^verbatim>\<open>intersect_ranges\<close>\<close>

text \<open>
  \<^verbatim>\<open>fs1[(fs1[2] < fs1[3] ? 2*i : 0) + j]\<close>: pair \<open>i\<close> of a range pair, or its first
  pair again when its second pair is empty.
\<close>

definition pick :: "real list \<Rightarrow> nat \<Rightarrow> nat \<Rightarrow> real" where
  "pick fs i j = fs ! ((if fs ! 2 < fs ! 3 then 2 * i else 0) + j)"

text \<open>The double loop: \<^verbatim>\<open>fs[i*2+j] = j ? fmin(f0, f1) : fmax(f0, f1)\<close>.\<close>

definition overlap :: "real list \<Rightarrow> real list \<Rightarrow> real list" where
  "overlap fs1 fs2 =
     [max (pick fs1 0 0) (pick fs2 0 0), min (pick fs1 0 1) (pick fs2 0 1),
      max (pick fs1 1 0) (pick fs2 1 0), min (pick fs1 1 1) (pick fs2 1 1)]"

text \<open>Ranges overlap at apoapsis: union of the ranges, shifted by \<open>-2 pi\<close>.\<close>

definition union_apoapsis :: "(real \<Rightarrow> bool) \<Rightarrow> bool \<Rightarrow> real list \<Rightarrow> real list" where
  "union_apoapsis z closed' fs =
     (if closed' \<and> (fs ! 0 \<le> - pi \<or> z (fs ! 0 + pi)) \<and> (fs ! 3 \<ge> pi \<or> z (fs ! 3 - pi))
      then [min (fs ! 0) (fs ! 2 - 2 * pi), max (fs ! 1) (fs ! 3 - 2 * pi), 1, - 1]
      else fs)"

text \<open>Ranges overlap at periapsis: union of the ranges.\<close>

definition union_periapsis :: "(real \<Rightarrow> bool) \<Rightarrow> real list \<Rightarrow> real list" where
  "union_periapsis z fs =
     (if (fs ! 1 \<ge> fs ! 2 \<or> z (fs ! 1 - fs ! 2)) \<and> fs ! 2 < fs ! 3
      then [fs ! 0, fs ! 3, 1, - 1]
      else fs)"

text \<open>The second range overlaps apoapsis: swap the ranges, the second shifted by \<open>-2 pi\<close>.\<close>

definition swap_apoapsis :: "real list \<Rightarrow> real list" where
  "swap_apoapsis fs =
     (if fs ! 2 < fs ! 3 \<and> fs ! 3 > pi
      then [fs ! 2 - 2 * pi, fs ! 3 - 2 * pi, fs ! 0, fs ! 1]
      else fs)"

text \<open>The first range is empty and the second is not: move the second to the front.\<close>

definition swap_empty :: "real list \<Rightarrow> real list" where
  "swap_empty fs =
     (if fs ! 2 < fs ! 3 \<and> \<not> (fs ! 0 < fs ! 1)
      then [fs ! 2, fs ! 3, 1, - 1]
      else fs)"

text \<open>The first range covers the full orbit: it becomes \<open>-pi .. pi\<close>.\<close>

definition full_orbit :: "real list \<Rightarrow> real list" where
  "full_orbit fs =
     (if fs ! 1 - fs ! 0 \<ge> 2 * pi
      then [- pi, pi, fs ! 2, fs ! 3]
      else fs)"

text \<open>\<^verbatim>\<open>(fs[0] < fs[1]) + (fs[2] < fs[3])\<close>\<close>

definition count_ranges :: "real list \<Rightarrow> int" where
  "count_ranges fs = (if fs ! 0 < fs ! 1 then 1 else 0) + (if fs ! 2 < fs ! 3 then 1 else 0)"

text \<open>
  \<^verbatim>\<open>intersect_ranges(fs1, fs2, closed, fs)\<close> writes all four entries of \<^verbatim>\<open>fs\<close> before it
  reads any, so the model returns the written array with the count. The first argument
  is the \<^verbatim>\<open>zero\<close> predicate of \<^verbatim>\<open>math_utils.h\<close>.
\<close>

definition intersect_ranges ::
  "(real \<Rightarrow> bool) \<Rightarrow> real list \<Rightarrow> real list \<Rightarrow> bool \<Rightarrow> int \<times> real list" where
  "intersect_ranges z fs1 fs2 closed' =
     (let fs = full_orbit (swap_empty (swap_apoapsis
                 (union_periapsis z (union_apoapsis z closed' (overlap fs1 fs2)))))
      in (count_ranges fs, fs))"

subsection \<open>The range intersector: \<^verbatim>\<open>intercept_intersect\<close>\<close>

text \<open>\<^verbatim>\<open>DBL_EPSILON\<close> of \<^verbatim>\<open>float.h\<close>, for a 64-bit \<^verbatim>\<open>double\<close>.\<close>

definition DBL_EPSILON :: real where
  "DBL_EPSILON = 1 / 2 ^ 52"

text \<open>
  The ranges of true anomaly where the radius of orbit 1 is between the target
  periapsis and apoapsis: the \<^verbatim>\<open>if\<close> chain that fills \<^verbatim>\<open>fs1\<close>, for \<open>e1\<close> and the two
  anomalies \<open>f1 \<le> f2\<close>.
\<close>

definition band_ranges :: "collaborators \<Rightarrow> real \<Rightarrow> real \<Rightarrow> real \<Rightarrow> real list" where
  "band_ranges X e1 f1 f2 =
     (if conic_closed X e1 \<and> zero X f1 \<and> \<not> (f2 < pi) then [- 2 * pi, 2 * pi, 1, - 1]
      else if zero X f1 then [- f2, f2, 1, - 1]
      else if conic_closed X e1 \<and> \<not> (f2 < pi) then [- 2 * pi, - f1, f1, 2 * pi]
      else [- f2, - f1, f1, f2])"

text \<open>
  One pass of the loop over the two nodes: the node's true anomaly \<open>f_node\<close>, the
  distance there and the half width \<open>delta_f\<close> of the band around it.
\<close>

definition node_range :: "collaborators \<Rightarrow> real \<Rightarrow> real \<Rightarrow> real \<Rightarrow> real \<Rightarrow> real \<Rightarrow> real list" where
  "node_range X p1 e1 threshold reli f_node =
     (let r = p1 / (1 + e1 * cos f_node);
          delta_f = arcsin (clamp X (- 1) 1 (sin (threshold / (2 * r)) / sin (\<bar>reli\<bar> / 2)))
      in [f_node - delta_f, f_node + delta_f])"

text \<open>
  The ranges of true anomaly where orbit 1 is closer than the threshold to the plane of
  orbit 2 (\<^verbatim>\<open>fs2\<close>): everything when the planes coincide, a band around each node
  otherwise.
\<close>

definition plane_ranges :: "collaborators \<Rightarrow> orbit \<Rightarrow> orbit \<Rightarrow> real \<Rightarrow> real \<Rightarrow> real \<Rightarrow> real list" where
  "plane_ranges X orbit1 orbit2 p1 e1 threshold =
     (let nodes = cross X (normal_axis orbit1) (normal_axis orbit2);
          N2 = dot X nodes nodes;
          N = sqrt N2;
          coplanar = N2 < DBL_EPSILON
      in if \<not> coplanar then
           (let reli = sign X (dot X (normal_axis orbit1) (normal_axis orbit2)) *
                  arcsin (clamp X (- 1) 1 N);
                f_an = sign X (dot X (minor_axis orbit1) nodes) *
                  arccos (clamp X (- 1) 1 (dot X (major_axis orbit1) nodes / N));
                f_dn = f_an - sign X f_an * pi
            in node_range X p1 e1 threshold reli (min f_an f_dn) @
               node_range X p1 e1 threshold reli (max f_an f_dn))
         else [- pi, pi, 1, - 1])"

text \<open>
  \<^verbatim>\<open>intercept_intersect(orbit1, orbit2, threshold, fs)\<close>. The last argument is the
  content of the caller's array \<^verbatim>\<open>fs\<close> at the call; the result is the returned count
  with the content of \<^verbatim>\<open>fs\<close> at the return. The two early returns leave the array as
  it was.
\<close>

definition intercept_intersect ::
  "collaborators \<Rightarrow> orbit \<Rightarrow> orbit \<Rightarrow> real \<Rightarrow> real list \<Rightarrow> int \<times> real list" where
  "intercept_intersect X orbit1 orbit2 threshold fs =
     (if orbit_radial X orbit1 \<or> orbit_radial X orbit2 then (0, fs)
      else
        let p1 = orbit_semi_latus_rectum X orbit1;
            p2 = orbit_semi_latus_rectum X orbit2;
            e1 = orbit_eccentricity X orbit1;
            e2 = orbit_eccentricity X orbit2;
            ap1 = conic_apoapsis X p1 e1; pe1 = conic_periapsis X p1 e1;
            ap2 = conic_apoapsis X p2 e2; pe2 = conic_periapsis X p2 e2
        in if (conic_closed X e1 \<and> ap1 \<le> pe2 - threshold) \<or>
              (conic_closed X e2 \<and> ap2 \<le> pe1 - threshold) then (0, fs)
           else
             let maxf = conic_max_true_anomaly X e1;
                 fpe = (if conic_circular X e1 then 0
                        else true_anomaly_from_radius X p1 e1 (pe2 - threshold));
                 fap = (if conic_circular X e1 \<or> \<not> conic_closed X e2 then maxf
                        else true_anomaly_from_radius X p1 e1 (ap2 + threshold));
                 f1 = min fap fpe; f2 = max fap fpe;
                 fs1 = band_ranges X e1 f1 f2;
                 fs2 = plane_ranges X orbit1 orbit2 p1 e1 threshold
             in intersect_ranges (zero X) fs1 fs2 (conic_closed X e1))"

subsection \<open>The time windower: \<^verbatim>\<open>intercept_times\<close>\<close>

text \<open>\<^verbatim>\<open>(int)trunc(x)\<close>, and the conversion of a \<^verbatim>\<open>double\<close> to \<^verbatim>\<open>int\<close>: towards zero.\<close>

definition trunc_int :: "real \<Rightarrow> int" where
  "trunc_int x = (if 0 \<le> x then \<lfloor>x\<rfloor> else \<lceil>x\<rceil>)"

text \<open>
  The range of \<^verbatim>\<open>int\<close>, 32 bits wide. C leaves undefined the conversion to \<^verbatim>\<open>int\<close> of a
  \<^verbatim>\<open>double\<close> whose truncated value is outside this range, and the increment of an
  \<^verbatim>\<open>int\<close> that holds \<^verbatim>\<open>INT_MAX\<close>. The time windower does both with its period counters
  \<^verbatim>\<open>n_orbit\<close>; the model returns the fault there.
\<close>

definition INT_MAX :: int where
  "INT_MAX = 2147483647"

definition INT_MIN :: int where
  "INT_MIN = - 2147483648"

datatype fault = Int_overflow

definition int_of_double :: "real \<Rightarrow> fault + int" where
  "int_of_double x =
     (if INT_MIN \<le> trunc_int x \<and> trunc_int x \<le> INT_MAX then Inr (trunc_int x)
      else Inl Int_overflow)"

text \<open>
  The first loop, for orbit number \<open>ob\<close> (0 or 1). \<open>anomaly_time\<close> is the time of the
  true anomaly \<^verbatim>\<open>fs[4*o+k]\<close>, clamped to what the orbit reaches between \<open>t0\<close> and \<open>t1\<close>
  when it is open; \<open>orbit_times\<close> is the row \<^verbatim>\<open>times[o]\<close>, where an empty range of
  true anomaly keeps the initial \<open>1, -1\<close>; \<open>orbit_period\<close> is \<^verbatim>\<open>periods[o]\<close>;
  \<open>orbit_turns\<close> is the \<^verbatim>\<open>double\<close> that the source truncates and converts to \<^verbatim>\<open>int\<close>
  for \<^verbatim>\<open>n_orbit[o]\<close>, and \<open>orbit_count\<close> is \<^verbatim>\<open>n_orbit[o]\<close>, or the fault when the
  conversion is undefined.
\<close>

definition anomaly_time ::
  "collaborators \<Rightarrow> real \<Rightarrow> orbit \<Rightarrow> real \<Rightarrow> real \<Rightarrow> real \<Rightarrow> real" where
  "anomaly_time X mu orb t0 t1 f_in =
     (let p = orbit_semi_latus_rectum X orb;
          e = orbit_eccentricity X orb;
          t_pe = orbit_periapsis_time X orb;
          n = conic_mean_motion X mu p e;
          f_t0 = (if \<not> conic_closed X e then anomaly_mean_to_true X e ((t0 - t_pe) * n) else - pi);
          f_t1 = (if \<not> conic_closed X e then anomaly_mean_to_true X e ((t1 - t_pe) * n) else pi);
          f = clamp X f_t0 f_t1 f_in;
          M = anomaly_true_to_mean X e f - (if f < - pi then 2 * pi else 0)
      in t_pe + M / n)"

definition orbit_times ::
  "collaborators \<Rightarrow> real \<Rightarrow> orbit \<Rightarrow> real \<Rightarrow> real \<Rightarrow> real list \<Rightarrow> nat \<Rightarrow> real list" where
  "orbit_times X mu orb t0 t1 fs ob =
     (if fs ! (4 * ob + 0) \<ge> fs ! (4 * ob + 1) then [1, - 1]
      else [anomaly_time X mu orb t0 t1 (fs ! (4 * ob + 0)),
            anomaly_time X mu orb t0 t1 (fs ! (4 * ob + 1))]) @
     (if fs ! (4 * ob + 2) \<ge> fs ! (4 * ob + 3) then [1, - 1]
      else [anomaly_time X mu orb t0 t1 (fs ! (4 * ob + 2)),
            anomaly_time X mu orb t0 t1 (fs ! (4 * ob + 3))])"

definition orbit_period :: "collaborators \<Rightarrow> real \<Rightarrow> orbit \<Rightarrow> real" where
  "orbit_period X mu orb =
     (let p = orbit_semi_latus_rectum X orb;
          e = orbit_eccentricity X orb;
          n = conic_mean_motion X mu p e
      in if conic_closed X e then 2 * pi / n else 0)"

definition orbit_turns :: "collaborators \<Rightarrow> real \<Rightarrow> orbit \<Rightarrow> real \<Rightarrow> real" where
  "orbit_turns X mu orb t0 =
     (let t_pe = orbit_periapsis_time X orb;
          P = orbit_period X mu orb
      in (t0 - t_pe) / P + (if t_pe > t0 then - (1 / 2) else 1 / 2))"

definition orbit_count :: "collaborators \<Rightarrow> real \<Rightarrow> orbit \<Rightarrow> real \<Rightarrow> fault + int" where
  "orbit_count X mu orb t0 =
     (if conic_closed X (orbit_eccentricity X orb)
      then int_of_double (orbit_turns X mu orb t0)
      else Inr 0)"

text \<open>
  What the merge walk reads and never changes: the \<^verbatim>\<open>zero\<close> predicate, \<^verbatim>\<open>times\<close>,
  \<^verbatim>\<open>periods\<close>, \<^verbatim>\<open>orbit_elliptic(orbits[o])\<close>, the array \<^verbatim>\<open>fs\<close>, \<open>t0\<close>, \<open>t1\<close> and
  \<^verbatim>\<open>max_times\<close>.
\<close>

record windows =
  w_zero :: "real \<Rightarrow> bool"
  w_times :: "nat \<Rightarrow> real list"
  w_periods :: "nat \<Rightarrow> real"
  w_elliptic :: "nat \<Rightarrow> bool"
  w_fs :: "real list"
  w_t0 :: real
  w_t1 :: real
  w_max_times :: int

text \<open>
  The variables of the merge walk. \<open>out\<close> is the content of the output array
  \<^verbatim>\<open>intercept_times\<close> as the list of its first \<^verbatim>\<open>num_times\<close> pairs
  \<open>(t_begin, t_end)\<close>, so \<^verbatim>\<open>num_times\<close> is the length of \<open>out\<close>.
\<close>

record walk =
  isect :: "nat \<Rightarrow> nat"
  n_orbit :: "nat \<Rightarrow> int"
  t_cur :: real
  out :: "(real \<times> real) list"

text \<open>\<^verbatim>\<open>trange[o][j]\<close>: the current time interval of orbit \<open>ob\<close> on its current period.\<close>

definition trange :: "windows \<Rightarrow> walk \<Rightarrow> nat \<Rightarrow> nat \<Rightarrow> real" where
  "trange W s ob j = w_times W ob ! (2 * isect s ob + j) + of_int (n_orbit s ob) * w_periods W ob"

text \<open>
  The output array after a non-empty interval \<open>(t_begin, t_end)\<close> is found: merged into
  the previous interval, or added as a new one.
\<close>

definition record_interval ::
  "(real \<Rightarrow> bool) \<Rightarrow> (real \<times> real) list \<Rightarrow> real \<Rightarrow> real \<Rightarrow> (real \<times> real) list" where
  "record_interval z ivs t_begin t_end =
     (if length ivs \<ge> 1 \<and> (t_begin \<le> snd (last ivs) \<or> z (t_begin - snd (last ivs)))
      then butlast ivs @ [(fst (last ivs), t_end)]
      else ivs @ [(t_begin, t_end)])"

text \<open>
  The overlapping time interval of a pass: \<^verbatim>\<open>t_begin\<close> and \<^verbatim>\<open>t_end\<close>.
\<close>

definition t_begin_of :: "windows \<Rightarrow> walk \<Rightarrow> real" where
  "t_begin_of W s = max (t_cur s) (max (trange W s 0 0) (trange W s 1 0))"

definition t_end_of :: "windows \<Rightarrow> walk \<Rightarrow> real" where
  "t_end_of W s = min (w_t1 W) (min (trange W s 0 1) (trange W s 1 1))"

text \<open>\<^verbatim>\<open>advance\<close>: the orbit whose current interval ends first, orbit 1 on a tie.\<close>

definition advance_of :: "windows \<Rightarrow> walk \<Rightarrow> nat" where
  "advance_of W s = (if trange W s 0 1 < trange W s 1 1 then 0 else 1)"

text \<open>
  \<^verbatim>\<open>isect[advance] == 2 || fnext0 >= fnext1\<close>, after \<^verbatim>\<open>isect[advance] += 1\<close>: the
  advanced orbit has no further range on this period. The source reads \<^verbatim>\<open>fnext0\<close> and
  \<^verbatim>\<open>fnext1\<close> also when \<^verbatim>\<open>isect[advance]\<close> is 2, past the ranges of the orbit; the test
  does not depend on them then.
\<close>

definition exhausted :: "windows \<Rightarrow> walk \<Rightarrow> bool" where
  "exhausted W s =
     (let a = advance_of W s; i = isect s a + 1
      in i = 2 \<or> w_fs W ! (4 * a + 2 * i + 0) \<ge> w_fs W ! (4 * a + 2 * i + 1))"

text \<open>
  One pass through the body of the \<^verbatim>\<open>while\<close> loop. The result is \<open>True\<close> with the state
  at the \<^verbatim>\<open>break\<close>, or \<open>False\<close> with the state at the end of the body, or the fault
  when \<^verbatim>\<open>n_orbit[advance] += 1\<close> would pass \<^verbatim>\<open>INT_MAX\<close>.
\<close>

definition walk_step :: "windows \<Rightarrow> walk \<Rightarrow> fault + bool \<times> walk" where
  "walk_step W s =
     (let t_begin = t_begin_of W s;
          t_end = t_end_of W s;
          ivs = (if t_begin < t_end then record_interval (w_zero W) (out s) t_begin t_end
                 else out s);
          advance = advance_of W s;
          s1 = s\<lparr>t_cur := max (w_t0 W) t_end, out := ivs,
                 isect := (isect s)(advance := isect s advance + 1)\<rparr>
      in if exhausted W s
         then (if \<not> w_elliptic W advance then Inr (True, s1)
               else if INT_MAX < n_orbit s1 advance + 1 then Inl Int_overflow
               else Inr (False, s1\<lparr>isect := (isect s1)(advance := 0),
                                    n_orbit := (n_orbit s1)(advance := n_orbit s1 advance + 1)\<rparr>))
         else Inr (False, s1))"

text \<open>
  \<^verbatim>\<open>while(t < t1 && num_times < max_times)\<close>. The result is \<open>None\<close> when the loop runs
  forever, the fault when a pass ends in it, and the state at the exit otherwise.
\<close>

partial_function (option) merge_walk :: "windows \<Rightarrow> walk \<Rightarrow> (fault + walk) option" where
  "merge_walk W s =
     (if t_cur s < w_t1 W \<and> int (length (out s)) < w_max_times W
      then (case walk_step W s of
              Inl e \<Rightarrow> Some (Inl e)
            | Inr (stop, s') \<Rightarrow> if stop then Some (Inr s') else merge_walk W s')
      else Some (Inr s))"

definition orbit_of :: "orbit \<Rightarrow> orbit \<Rightarrow> nat \<Rightarrow> orbit" where
  "orbit_of orbit1 orbit2 ob = (if ob = 0 then orbit1 else orbit2)"

definition windows_of ::
  "collaborators \<Rightarrow> orbit \<Rightarrow> orbit \<Rightarrow> real \<Rightarrow> real \<Rightarrow> real list \<Rightarrow> int \<Rightarrow> windows" where
  "windows_of X orbit1 orbit2 t0 t1 fs max_times =
     (let mu = orbit_gravity_parameter X orbit1
      in \<lparr>w_zero = zero X,
          w_times = (\<lambda>ob. orbit_times X mu (orbit_of orbit1 orbit2 ob) t0 t1 fs ob),
          w_periods = (\<lambda>ob. orbit_period X mu (orbit_of orbit1 orbit2 ob)),
          w_elliptic = (\<lambda>ob. orbit_elliptic X (orbit_of orbit1 orbit2 ob)),
          w_fs = fs, w_t0 = t0, w_t1 = t1, w_max_times = max_times\<rparr>)"

text \<open>
  The variables at the entry of the \<^verbatim>\<open>while\<close> loop, or the fault when the conversion of
  a period counter is undefined.
\<close>

definition walk_init :: "collaborators \<Rightarrow> orbit \<Rightarrow> orbit \<Rightarrow> real \<Rightarrow> fault + walk" where
  "walk_init X orbit1 orbit2 t0 =
     (let mu = orbit_gravity_parameter X orbit1
      in case orbit_count X mu orbit1 t0 of
           Inl e \<Rightarrow> Inl e
         | Inr n1 \<Rightarrow>
             (case orbit_count X mu orbit2 t0 of
                Inl e \<Rightarrow> Inl e
              | Inr n2 \<Rightarrow>
                  Inr \<lparr>isect = (\<lambda>ob. 0), n_orbit = (\<lambda>ob. if ob = 0 then n1 else n2),
                       t_cur = t0, out = []\<rparr>))"

text \<open>
  \<^verbatim>\<open>intercept_times(orbit1, orbit2, t0, t1, fs, intercept_times, max_times)\<close>: the
  returned \<^verbatim>\<open>num_times\<close> with the intervals written to the output array; the fault
  when a period counter leaves the range of \<^verbatim>\<open>int\<close>; \<open>None\<close> when the merge walk does
  not end.
\<close>

definition intercept_times ::
  "collaborators \<Rightarrow> orbit \<Rightarrow> orbit \<Rightarrow> real \<Rightarrow> real \<Rightarrow> real list \<Rightarrow> int \<Rightarrow>
     (fault + int \<times> (real \<times> real) list) option" where
  "intercept_times X orbit1 orbit2 t0 t1 fs max_times =
     (case walk_init X orbit1 orbit2 t0 of
        Inl e \<Rightarrow> Some (Inl e)
      | Inr s0 \<Rightarrow>
          (case merge_walk (windows_of X orbit1 orbit2 t0 t1 fs max_times) s0 of
             None \<Rightarrow> None
           | Some (Inl e) \<Rightarrow> Some (Inl e)
           | Some (Inr s) \<Rightarrow> Some (Inr (int (length (out s)), out s))))"

subsection \<open>The closest-approach searcher: \<^verbatim>\<open>intercept_search\<close>\<close>

text \<open>\<^verbatim>\<open>pos[1] - pos[0]\<close> on \<^verbatim>\<open>vec4d\<close>: the difference of each component.\<close>

fun vsub :: "vec4d \<Rightarrow> vec4d \<Rightarrow> vec4d" where
  "vsub (a1, a2, a3, a4) (b1, b2, b3, b4) = (a1 - b1, a2 - b2, a3 - b3, a4 - b4)"

text \<open>
  What one pass of the loop computes from the time \<open>t\<close>: the state of both orbits, their
  difference, the distance and the closing rate.
\<close>

record sample =
  position :: "vec4d \<times> vec4d"
  velocity :: "vec4d \<times> vec4d"
  relative_position :: vec4d
  relative_velocity :: vec4d
  distance :: real
  speed :: real

text \<open>
  \<^verbatim>\<open>struct intercept\<close> as \<^verbatim>\<open>intercept_search\<close> fills it. \<open>measured\<close> holds the fields
  copied from the last pass of the loop; it is \<open>None\<close> when no pass ran, where the C
  fields are uninitialised vectors and NaN. The fields \<^verbatim>\<open>xxx1\<close> and \<^verbatim>\<open>xxx2\<close> are always
  NaN and are left out.
\<close>

record intercept =
  measured :: "sample option"
  mu :: real
  time :: real
  E1 :: real
  E2 :: real

text \<open>The arguments of \<^verbatim>\<open>intercept_search\<close>.\<close>

record query =
  q_orbit1 :: orbit
  q_orbit2 :: orbit
  q_t0 :: real
  q_t1 :: real
  q_threshold :: real
  q_target_distance :: real
  q_max_steps :: int

text \<open>\<^verbatim>\<open>n[o]\<close>, \<^verbatim>\<open>E[o]\<close> at the time \<open>t\<close>, and \<^verbatim>\<open>vmax\<close>.\<close>

definition mean_motion_of :: "collaborators \<Rightarrow> query \<Rightarrow> orbit \<Rightarrow> real" where
  "mean_motion_of X Q orb =
     conic_mean_motion X (orbit_gravity_parameter X (q_orbit1 Q))
       (orbit_semi_latus_rectum X orb) (orbit_eccentricity X orb)"

definition eccentric_at :: "collaborators \<Rightarrow> query \<Rightarrow> orbit \<Rightarrow> real \<Rightarrow> real" where
  "eccentric_at X Q orb t =
     anomaly_mean_to_eccentric X (orbit_eccentricity X orb)
       ((t - orbit_periapsis_time X orb) * mean_motion_of X Q orb)"

definition vmax_of :: "collaborators \<Rightarrow> query \<Rightarrow> real" where
  "vmax_of X Q =
     (let mu = orbit_gravity_parameter X (q_orbit1 Q)
      in conic_periapsis_velocity X mu (orbit_semi_latus_rectum X (q_orbit1 Q))
           (orbit_eccentricity X (q_orbit1 Q)) +
         conic_periapsis_velocity X mu (orbit_semi_latus_rectum X (q_orbit2 Q))
           (orbit_eccentricity X (q_orbit2 Q)))"

definition evaluate :: "collaborators \<Rightarrow> query \<Rightarrow> real \<Rightarrow> sample" where
  "evaluate X Q t =
     (let pos0 = orbit_position_eccentric X (q_orbit1 Q) (eccentric_at X Q (q_orbit1 Q) t);
          vel0 = orbit_velocity_eccentric X (q_orbit1 Q) (eccentric_at X Q (q_orbit1 Q) t);
          pos1 = orbit_position_eccentric X (q_orbit2 Q) (eccentric_at X Q (q_orbit2 Q) t);
          vel1 = orbit_velocity_eccentric X (q_orbit2 Q) (eccentric_at X Q (q_orbit2 Q) t);
          dr = vsub pos1 pos0;
          dv = vsub vel1 vel0;
          dist' = mag X dr;
          vrel = dot X dr dv / dist'
      in \<lparr>position = (pos0, pos1), velocity = (vel0, vel1),
          relative_position = dr, relative_velocity = dv,
          distance = dist', speed = vrel\<rparr>)"

text \<open>
  The variables of the loop. \<open>s_dt\<close> is the local \<^verbatim>\<open>dt\<close> of the last pass, \<open>s_E\<close> the
  array \<^verbatim>\<open>E\<close>, \<open>s_last\<close> the sample of the last pass. \<open>s_evals\<close> is not a variable of the
  source: it counts the passes that evaluated a sample. \<^verbatim>\<open>prev_time\<close> starts as NaN in
  the source and is read only after \<^verbatim>\<open>prev_sgn\<close> became negative, which a pass through
  the end of the body does after assigning \<^verbatim>\<open>prev_time\<close>; the model starts it at 0.
\<close>

record search =
  s_t :: real
  s_prev_time :: real
  s_prev_sgn :: int
  s_t_end :: real
  s_min_dt :: real
  s_dt :: real
  s_E :: "real \<times> real"
  s_last :: "sample option"
  s_evals :: nat

text \<open>
  The searching branch: \<^verbatim>\<open>dt = fmax(dt, deltas[i])\<close> for every finite entry of
  \<^verbatim>\<open>deltas\<close>. The second entry is a quotient by \<^verbatim>\<open>vmax\<close>, not finite when \<^verbatim>\<open>vmax\<close> is 0.
\<close>

definition skip_ahead :: "real \<Rightarrow> real \<Rightarrow> real \<Rightarrow> real \<Rightarrow> real \<Rightarrow> real" where
  "skip_ahead dt dist' target_distance threshold vmax =
     (let dt1 = max dt (- 1)
      in if vmax = 0 then dt1 else max dt1 (\<bar>(dist' - target_distance) - threshold\<bar> / vmax))"

text \<open>The end of the loop body, after the \<^verbatim>\<open>if\<close> chain, with the \<^verbatim>\<open>sgn\<close> of the pass.\<close>

definition proceed :: "int \<Rightarrow> search \<Rightarrow> search" where
  "proceed sgn' s =
     s\<lparr>s_t_end := max (s_t_end s) (s_t s), s_prev_time := s_t s, s_prev_sgn := sgn',
       s_t := s_t s + s_dt s\<rparr>"

text \<open>
  One pass through the body of the \<^verbatim>\<open>for\<close> loop, at the counter \<open>step\<close>: \<open>True\<close> with the
  state at a \<^verbatim>\<open>break\<close>, \<open>False\<close> with the state at the end of the body.
\<close>

definition search_step :: "collaborators \<Rightarrow> query \<Rightarrow> int \<Rightarrow> search \<Rightarrow> bool \<times> search" where
  "search_step X Q step s =
     (let smp = evaluate X Q (s_t s);
          dist' = distance smp;
          vrel = speed smp;
          sgn' = trunc_int (sign X vrel * sign X (dist' - q_target_distance Q));
          s1 = s\<lparr>s_E := (eccentric_at X Q (q_orbit1 Q) (s_t s), eccentric_at X Q (q_orbit2 Q) (s_t s)),
                 s_last := Some smp, s_evals := s_evals s + 1, s_dt := s_min_dt s\<rparr>
      in if zero X (square X (dist' - max 0 (q_target_distance Q)) / square X (q_threshold Q))
         then (True, s1)
         else if sgn' < 0 \<and> dist' < q_threshold Q \<and> s_t_end s > q_t0 Q
         then (True, s1\<lparr>s_dt := (q_target_distance Q - dist') / vrel\<rparr>)
         else if sgn' > 0 \<and> s_prev_sgn s < 0 \<and>
                 (s_t s - s_prev_time s) * vmax_of X Q + q_threshold Q > \<bar>dist' - q_target_distance Q\<bar> \<and>
                 (s_t s - s_prev_time s) > (q_t1 Q - s_t_end s) / of_int (q_max_steps Q - step)
         then (False,
               proceed (s_prev_sgn s)
                 (s1\<lparr>s_t_end := max (s_t s) (s_t_end s),
                     s_min_dt := (s_t s - s_prev_time s) / 2,
                     s_dt := (s_t s - s_prev_time s) / 2,
                     s_t := s_prev_time s\<rparr>))
         else if s_t s > q_t1 Q then (True, s1)
         else (False,
               proceed sgn'
                 (s1\<lparr>s_dt := skip_ahead (s_min_dt s) dist' (q_target_distance Q) (q_threshold Q)
                                (vmax_of X Q)\<rparr>)))"

text \<open>
  \<^verbatim>\<open>for(int step = 0; step < max_steps; ++step)\<close>: the first argument is the number of
  passes that remain, \<open>max_steps - step\<close>.
\<close>

fun search_loop :: "collaborators \<Rightarrow> query \<Rightarrow> nat \<Rightarrow> int \<Rightarrow> search \<Rightarrow> search" where
  "search_loop X Q 0 step s = s"
| "search_loop X Q (Suc k) step s =
     (case search_step X Q step s of
        (stop, s') \<Rightarrow> if stop then s' else search_loop X Q k (step + 1) s')"

text \<open>\<^verbatim>\<open>max_steps/2\<close> on \<^verbatim>\<open>int\<close>: the quotient rounded towards zero.\<close>

definition half :: "int \<Rightarrow> int" where
  "half k = (if 0 \<le> k then k div 2 else - ((- k) div 2))"

definition search_init :: "collaborators \<Rightarrow> query \<Rightarrow> search" where
  "search_init X Q =
     \<lparr>s_t = q_t0 Q, s_prev_time = 0, s_prev_sgn = 0, s_t_end = q_t1 Q,
      s_min_dt = (q_t1 Q - q_t0 Q) / of_int (half (q_max_steps Q)),
      s_dt = 0,
      s_E = ((q_t0 Q - orbit_periapsis_time X (q_orbit1 Q)) * mean_motion_of X Q (q_orbit1 Q),
             (q_t0 Q - orbit_periapsis_time X (q_orbit2 Q)) * mean_motion_of X Q (q_orbit2 Q)),
      s_last = None, s_evals = 0\<rparr>"

definition search_run :: "collaborators \<Rightarrow> query \<Rightarrow> search" where
  "search_run X Q = search_loop X Q (nat (q_max_steps Q)) 0 (search_init X Q)"

text \<open>
  \<^verbatim>\<open>intercept_search(orbit1, orbit2, t0, t1, threshold, target_distance, max_steps,
  intercept)\<close>: the returned \<^verbatim>\<open>t_end\<close> with the record written to \<^verbatim>\<open>*intercept\<close>.
\<close>

definition intercept_search ::
  "collaborators \<Rightarrow> orbit \<Rightarrow> orbit \<Rightarrow> real \<Rightarrow> real \<Rightarrow> real \<Rightarrow> real \<Rightarrow> int \<Rightarrow> real \<times> intercept" where
  "intercept_search X orbit1 orbit2 t0 t1 threshold target_distance max_steps =
     (let Q = \<lparr>q_orbit1 = orbit1, q_orbit2 = orbit2, q_t0 = t0, q_t1 = t1,
               q_threshold = threshold, q_target_distance = target_distance,
               q_max_steps = max_steps\<rparr>;
          s = search_run X Q
      in (s_t_end s,
          \<lparr>measured = s_last s, mu = orbit_gravity_parameter X orbit1, time = s_t s,
           E1 = fst (s_E s), E2 = snd (s_E s)\<rparr>))"

subsection \<open>The orchestrator: \<^verbatim>\<open>intercept_orbit\<close>\<close>

text \<open>
  The first loop of \<^verbatim>\<open>intercept_orbit\<close>, which fills the local array \<^verbatim>\<open>fs\<close> of eight
  doubles: \<^verbatim>\<open>intercept_intersect(orbit1, orbit2, threshold, fs + o*4)\<close> for \<open>o = 0\<close> and
  \<open>o = 1\<close>. \<open>fs0\<close> is the content of the array at entry, which C leaves indeterminate.
  The result is \<open>None\<close> when a call returns 0, where \<^verbatim>\<open>intercept_orbit\<close> returns at once.
\<close>

definition orbit_ranges ::
  "collaborators \<Rightarrow> orbit \<Rightarrow> orbit \<Rightarrow> real \<Rightarrow> real list \<Rightarrow> real list option" where
  "orbit_ranges X orbit1 orbit2 threshold fs0 =
     (case intercept_intersect X orbit1 orbit2 threshold (take 4 fs0) of
        (c0, lo) \<Rightarrow>
          if c0 = 0 then None
          else (case intercept_intersect X orbit1 orbit2 threshold (drop 4 fs0) of
                  (c1, hi) \<Rightarrow> if c1 = 0 then None else Some (lo @ hi)))"

text \<open>\<^verbatim>\<open>intercept->distance <= threshold\<close>, false on the NaN of a record no pass filled.\<close>

definition accepted :: "intercept \<Rightarrow> real \<Rightarrow> bool" where
  "accepted r threshold = (case measured r of None \<Rightarrow> False | Some smp \<Rightarrow> distance smp \<le> threshold)"

text \<open>
  The body of the loop over the time intervals, for one interval: the \<^verbatim>\<open>while\<close> loop
  that ends in \<^verbatim>\<open>break\<close> after its first pass. The state is \<^verbatim>\<open>num_intercepts\<close> with the
  caller's array \<^verbatim>\<open>intercepts\<close>.
\<close>

definition search_interval ::
  "collaborators \<Rightarrow> orbit \<Rightarrow> orbit \<Rightarrow> real \<Rightarrow> real \<Rightarrow> int \<Rightarrow> int \<Rightarrow>
     int \<times> intercept list \<Rightarrow> real \<times> real \<Rightarrow> int \<times> intercept list" where
  "search_interval X orbit1 orbit2 threshold target_distance max_intercepts max_steps st iv =
     (let num_intercepts = fst st; intercepts = snd st; t_begin = fst iv; t_end = snd iv
      in if t_begin < t_end \<and> num_intercepts < max_intercepts
         then (let r = snd (intercept_search X orbit1 orbit2 t_begin t_end threshold
                              target_distance max_steps)
               in (if accepted r threshold then num_intercepts + 1 else num_intercepts,
                   intercepts[nat num_intercepts := r]))
         else st)"

text \<open>
  \<^verbatim>\<open>intercept_orbit(orbit1, orbit2, t0, t1, threshold, target_distance, intercepts,
  max_intercepts, max_steps)\<close>: the returned \<^verbatim>\<open>int\<close> with the content of the caller's
  array \<^verbatim>\<open>intercepts\<close>, or \<open>None\<close> when the time windower gives no intervals: its walk
  does not end, or it ends in the fault. The early return is \<^verbatim>\<open>return t1\<close>, a \<^verbatim>\<open>double\<close>
  converted to the \<^verbatim>\<open>int\<close> result.
\<close>

definition intercept_orbit ::
  "collaborators \<Rightarrow> real list \<Rightarrow> orbit \<Rightarrow> orbit \<Rightarrow> real \<Rightarrow> real \<Rightarrow> real \<Rightarrow> real \<Rightarrow>
     intercept list \<Rightarrow> int \<Rightarrow> int \<Rightarrow> (int \<times> intercept list) option" where
  "intercept_orbit X fs0 orbit1 orbit2 t0 t1 threshold target_distance intercepts
       max_intercepts max_steps =
     (case orbit_ranges X orbit1 orbit2 threshold fs0 of
        None \<Rightarrow> Some (trunc_int t1, intercepts)
      | Some fs \<Rightarrow>
          (case intercept_times X orbit1 orbit2 t0 t1 fs (4 * max_intercepts) of
             None \<Rightarrow> None
           | Some (Inl e) \<Rightarrow> None
           | Some (Inr (ts, ivs)) \<Rightarrow>
               Some (foldl (search_interval X orbit1 orbit2 threshold target_distance
                              max_intercepts max_steps)
                       (0, intercepts) ivs)))"

section \<open>Vocabulary of the properties\<close>

subsection \<open>Range pairs\<close>

text \<open>
  The full range that \<^verbatim>\<open>intercept_intersect\<close> passes for coplanar orbits, and its
  counterpart over two turns for a closed orbit.
\<close>

definition full_range :: "bool \<Rightarrow> real list" where
  "full_range closed' = (if closed' then [- 2 * pi, 2 * pi, 1, - 1] else [- pi, pi, 1, - 1])"

text \<open>
  A well-formed range pair: four entries; a non-empty first range that begins at
  \<open>-pi\<close> or later, at \<open>-2 pi\<close> or later on a closed orbit, and ends at \<open>pi\<close> or
  earlier; a second range that is the empty pair \<open>1, -1\<close>, or is non-empty and lies
  between \<open>-pi\<close> and \<open>pi\<close>.
\<close>

definition well_formed :: "bool \<Rightarrow> real list \<Rightarrow> bool" where
  "well_formed closed' fs =
     (length fs = 4 \<and> fs ! 0 < fs ! 1 \<and> (if closed' then - 2 * pi else - pi) \<le> fs ! 0 \<and>
      fs ! 1 \<le> pi \<and>
      ((fs ! 2 = 1 \<and> fs ! 3 = - 1) \<or> (fs ! 2 < fs ! 3 \<and> - pi \<le> fs ! 2 \<and> fs ! 3 \<le> pi)))"

text \<open>
  The pair reaches apoapsis from both sides: its first range begins at \<open>-pi\<close> or below
  and its last range ends at \<open>pi\<close> or above, up to the tolerance of \<^verbatim>\<open>zero\<close>.
\<close>

definition touches_apoapsis :: "(real \<Rightarrow> bool) \<Rightarrow> real list \<Rightarrow> bool" where
  "touches_apoapsis z fs =
     ((fs ! 0 \<le> - pi \<or> z (fs ! 0 + pi)) \<and>
      ((if fs ! 2 < fs ! 3 then fs ! 3 else fs ! 1) \<ge> pi \<or>
       z ((if fs ! 2 < fs ! 3 then fs ! 3 else fs ! 1) - pi)))"

text \<open>
  The merger has nothing to join in a pair: on a closed orbit the pair does not reach
  apoapsis from both sides, unless it is \<open>-pi .. pi\<close>; its second range, when it is not
  empty, begins after the end of the first, by more than the tolerance of \<^verbatim>\<open>zero\<close>; and
  the first range is shorter than a full turn, unless it is \<open>-pi .. pi\<close>.
\<close>

definition settled :: "(real \<Rightarrow> bool) \<Rightarrow> bool \<Rightarrow> real list \<Rightarrow> bool" where
  "settled z closed' fs =
     ((closed' \<and> touches_apoapsis z fs \<longrightarrow> fs = [- pi, pi, 1, - 1]) \<and>
      (fs ! 2 < fs ! 3 \<longrightarrow> fs ! 1 < fs ! 2 \<and> \<not> z (fs ! 1 - fs ! 2)) \<and>
      (fs ! 1 - fs ! 0 < 2 * pi \<or> (fs ! 0 = - pi \<and> fs ! 1 = pi)))"

subsection \<open>The merge walk\<close>













section \<open>An instance of the collaborators\<close>

text \<open>
  Modelled from the spec: the headers \<^verbatim>\<open>math_utils.h\<close>, \<^verbatim>\<open>conic.h\<close>, \<^verbatim>\<open>anomaly.h\<close>,
  \<^verbatim>\<open>true_anomaly.h\<close> and \<^verbatim>\<open>orbit.h\<close> are not among the sources. The instance below
  follows what the spec says of them: the vector primitives, the conic formulas in the
  semi-latus rectum \<open>p\<close> and the eccentricity \<open>e\<close>, an orbit is radial when \<open>p\<close> is
  zero, closed when \<open>e < 1\<close>, and \<^verbatim>\<open>zero\<close> compares a square with a fixed small epsilon.
  The anomaly conversions are those of a circular orbit, where true, eccentric and mean
  anomaly are the same angle; the evaluations below that reach them use circular orbits.
  The instance only serves to evaluate the model on concrete inputs.
\<close>

fun vdot :: "vec4d \<Rightarrow> vec4d \<Rightarrow> real" where
  "vdot (a1, a2, a3, a4) (b1, b2, b3, b4) = a1 * b1 + a2 * b2 + a3 * b3 + a4 * b4"

fun vcross :: "vec4d \<Rightarrow> vec4d \<Rightarrow> vec4d" where
  "vcross (a1, a2, a3, a4) (b1, b2, b3, b4) =
     (a2 * b3 - a3 * b2, a3 * b1 - a1 * b3, a1 * b2 - a2 * b1, 0)"

fun vscale :: "real \<Rightarrow> vec4d \<Rightarrow> vec4d" where
  "vscale k (a1, a2, a3, a4) = (k * a1, k * a2, k * a3, k * a4)"

fun vadd :: "vec4d \<Rightarrow> vec4d \<Rightarrow> vec4d" where
  "vadd (a1, a2, a3, a4) (b1, b2, b3, b4) = (a1 + b1, a2 + b2, a3 + b3, a4 + b4)"

definition semi_major :: "real \<Rightarrow> real \<Rightarrow> real" where
  "semi_major p e = p / (1 - e * e)"

definition kepler :: collaborators where
  "kepler =
     \<lparr>zero = (\<lambda>x. x * x < DBL_EPSILON),
      sign = (\<lambda>x. if x < 0 then - 1 else 1),
      clamp = (\<lambda>lo hi x. if x < lo then lo else if hi < x then hi else x),
      square = (\<lambda>x. x * x),
      dot = vdot,
      cross = vcross,
      mag = (\<lambda>v. sqrt (vdot v v)),
      orbit_radial = (\<lambda>orb. semi_latus_rectum orb * semi_latus_rectum orb < DBL_EPSILON),
      orbit_elliptic = (\<lambda>orb. eccentricity orb < 1),
      orbit_gravity_parameter = gravity_parameter,
      orbit_semi_latus_rectum = semi_latus_rectum,
      orbit_eccentricity = eccentricity,
      orbit_periapsis_time = periapsis_time,
      orbit_position_eccentric = (\<lambda>orb E.
        vadd (vscale (semi_major (semi_latus_rectum orb) (eccentricity orb) *
                        (cos E - eccentricity orb)) (major_axis orb))
             (vscale (semi_major (semi_latus_rectum orb) (eccentricity orb) *
                        sqrt (1 - eccentricity orb * eccentricity orb) * sin E) (minor_axis orb))),
      orbit_velocity_eccentric = (\<lambda>orb E.
        vscale (sqrt (gravity_parameter orb * semi_major (semi_latus_rectum orb) (eccentricity orb)) /
                  (semi_major (semi_latus_rectum orb) (eccentricity orb) *
                     (1 - eccentricity orb * cos E)))
          (vadd (vscale (- sin E) (major_axis orb))
                (vscale (sqrt (1 - eccentricity orb * eccentricity orb) * cos E) (minor_axis orb)))),
      conic_apoapsis = (\<lambda>p e. p / (1 - e)),
      conic_periapsis = (\<lambda>p e. p / (1 + e)),
      conic_closed = (\<lambda>e. e < 1),
      conic_circular = (\<lambda>e. e * e < DBL_EPSILON),
      conic_max_true_anomaly = (\<lambda>e. if 1 < e then arccos (- (1 / e)) else pi),
      conic_mean_motion = (\<lambda>gm p e. sqrt (gm / (semi_major p e) ^ 3)),
      conic_periapsis_velocity = (\<lambda>gm p e. sqrt (gm / p) * (1 + e)),
      true_anomaly_from_radius = (\<lambda>p e r.
        arccos (if (p / r - 1) / e < - 1 then - 1 else if 1 < (p / r - 1) / e then 1
                else (p / r - 1) / e)),
      anomaly_mean_to_true = (\<lambda>e M. M),
      anomaly_true_to_mean = (\<lambda>e f. f),
      anomaly_mean_to_eccentric = (\<lambda>e M. M)\<rparr>"

text \<open>
  An orbit in the reference plane, periapsis on the first axis at time 0; a circular
  orbit of radius 1/4 whose periapsis direction is turned in the plane; the search of
  the second from the first over the times 0 to 1; and the range pairs of two orbits
  that may meet anywhere.
\<close>

definition planar :: "real \<Rightarrow> real \<Rightarrow> real \<Rightarrow> orbit" where
  "planar gm p e =
     \<lparr>gravity_parameter = gm, semi_latus_rectum = p, eccentricity = e, periapsis_time = 0,
      major_axis = (1, 0, 0, 0), minor_axis = (0, 1, 0, 0), normal_axis = (0, 0, 1, 0)\<rparr>"

definition tilted :: orbit where
  "tilted =
     \<lparr>gravity_parameter = 4, semi_latus_rectum = 1 / 4, eccentricity = 0, periapsis_time = 0,
      major_axis = (3 / 5, - (4 / 5), 0, 0), minor_axis = (4 / 5, 3 / 5, 0, 0),
      normal_axis = (0, 0, 1, 0)\<rparr>"

definition chase :: query where
  "chase = \<lparr>q_orbit1 = planar 4 1 0, q_orbit2 = tilted, q_t0 = 0, q_t1 = 1,
             q_threshold = 1, q_target_distance = 0, q_max_steps = 100\<rparr>"




section \<open>Properties\<close>

subsection \<open>Evaluating the instance\<close>

lemma eps_small: "0 < DBL_EPSILON" "DBL_EPSILON < 1"
  by (simp_all add: DBL_EPSILON_def)

lemma kepler_zero: "zero kepler x = (x * x < DBL_EPSILON)"
  by (simp add: kepler_def)

lemma kepler_simps:
  "sign kepler x = (if x < 0 then - 1 else 1)"
  "clamp kepler lo hi x = (if x < lo then lo else if hi < x then hi else x)"
  "square kepler x = x * x"
  "dot kepler = vdot"
  "cross kepler = vcross"
  "mag kepler v = sqrt (vdot v v)"
  "orbit_radial kepler orb = (semi_latus_rectum orb * semi_latus_rectum orb < DBL_EPSILON)"
  "orbit_elliptic kepler orb = (eccentricity orb < 1)"
  "orbit_gravity_parameter kepler = gravity_parameter"
  "orbit_semi_latus_rectum kepler = semi_latus_rectum"
  "orbit_eccentricity kepler = eccentricity"
  "orbit_periapsis_time kepler = periapsis_time"
  "conic_apoapsis kepler p e = p / (1 - e)"
  "conic_periapsis kepler p e = p / (1 + e)"
  "conic_closed kepler e = (e < 1)"
  "conic_circular kepler e = (e * e < DBL_EPSILON)"
  "conic_max_true_anomaly kepler e = (if 1 < e then arccos (- (1 / e)) else pi)"
  "conic_mean_motion kepler gm p e = sqrt (gm / (semi_major p e) ^ 3)"
  "conic_periapsis_velocity kepler gm p e = sqrt (gm / p) * (1 + e)"
  "true_anomaly_from_radius kepler p e r =
     arccos (if (p / r - 1) / e < - 1 then - 1 else if 1 < (p / r - 1) / e then 1
             else (p / r - 1) / e)"
  "anomaly_mean_to_true kepler e M = M"
  "anomaly_true_to_mean kepler e f = f"
  "anomaly_mean_to_eccentric kepler e M = M"
  by (simp_all add: kepler_def)

lemma kepler_state:
  "orbit_position_eccentric kepler orb E =
     vadd (vscale (semi_major (semi_latus_rectum orb) (eccentricity orb) *
                     (cos E - eccentricity orb)) (major_axis orb))
          (vscale (semi_major (semi_latus_rectum orb) (eccentricity orb) *
                     sqrt (1 - eccentricity orb * eccentricity orb) * sin E) (minor_axis orb))"
  "orbit_velocity_eccentric kepler orb E =
     vscale (sqrt (gravity_parameter orb * semi_major (semi_latus_rectum orb) (eccentricity orb)) /
               (semi_major (semi_latus_rectum orb) (eccentricity orb) *
                  (1 - eccentricity orb * cos E)))
       (vadd (vscale (- sin E) (major_axis orb))
             (vscale (sqrt (1 - eccentricity orb * eccentricity orb) * cos E) (minor_axis orb)))"
  by (simp_all add: kepler_def)

lemma planar_simps:
  "gravity_parameter (planar gm p e) = gm"
  "semi_latus_rectum (planar gm p e) = p"
  "eccentricity (planar gm p e) = e"
  "periapsis_time (planar gm p e) = 0"
  "major_axis (planar gm p e) = (1, 0, 0, 0)"
  "minor_axis (planar gm p e) = (0, 1, 0, 0)"
  "normal_axis (planar gm p e) = (0, 0, 1, 0)"
  by (simp_all add: planar_def)

lemma not_zero: "1 / 2 \<le> \<bar>x\<bar> \<Longrightarrow> \<not> zero kepler x"
proof -
  assume "1 / 2 \<le> \<bar>x\<bar>"
  then have "(1 / 2) * (1 / 2) \<le> \<bar>x\<bar> * \<bar>x\<bar>"
    by (intro mult_mono) simp_all
  then have "1 / 4 \<le> x * x" by simp
  then show ?thesis
    by (simp add: kepler_zero DBL_EPSILON_def)
qed

lemma zero_0: "zero kepler 0"
  using eps_small by (simp add: kepler_zero)

subsection \<open>The range merger\<close>

lemma overlap_commute: "overlap fs1 fs2 = overlap fs2 fs1"
  by (simp add: overlap_def max.commute min.commute)

text \<open>
  C6. \<^verbatim>\<open>intersect_ranges\<close> is commutative: for every two range pairs and every value of
  the closed flag, swapping the two inputs gives the same output ranges and the same
  returned count.
\<close>

theorem intersect_ranges_commute:
  "intersect_ranges z fs1 fs2 closed' = intersect_ranges z fs2 fs1 closed'"
  unfolding intersect_ranges_def by (subst overlap_commute) (rule refl)

lemma list4: "length fs = 4 \<Longrightarrow> fs = [fs ! 0, fs ! 1, fs ! 2, fs ! 3]"
  by (auto simp add: list_eq_iff_nth_eq less_Suc_eq numeral_eq_Suc)

text \<open>
  The merger on a well-formed pair and the full range: a single range, two ranges that
  it joins, two ranges that it keeps apart.
\<close>

lemma tail_kept:
  "fs ! 2 = 1 \<Longrightarrow> fs ! 3 = - 1 \<Longrightarrow>
   full_orbit (swap_empty (swap_apoapsis (union_periapsis z fs))) ! 2 = 1 \<and>
   full_orbit (swap_empty (swap_apoapsis (union_periapsis z fs))) ! 3 = - 1"
  by (simp add: union_periapsis_def swap_apoapsis_def swap_empty_def full_orbit_def)

lemma one_range:
  assumes "a < b" "(if closed' then - 2 * pi else - pi) \<le> a" "b \<le> pi"
  shows "intersect_ranges z [a, b, 1, - 1] (full_range closed') closed' =
           (1, if (closed' \<and> touches_apoapsis z [a, b, 1, - 1]) \<or> 2 * pi \<le> b - a
               then [- pi, pi, 1, - 1] else [a, b, 1, - 1])"
proof -
  have ov: "overlap [a, b, 1, - 1] (full_range closed') = [a, b, a, b]"
    using assms pi_gt_zero
    by (auto simp add: overlap_def pick_def full_range_def max_def min_def split: if_splits)
  show ?thesis
  proof (cases "closed' \<and> touches_apoapsis z [a, b, 1, - 1]")
    case True
    then have ua: "union_apoapsis z closed' [a, b, a, b] = [a - 2 * pi, b, 1, - 1]"
      using pi_gt_zero by (simp add: union_apoapsis_def touches_apoapsis_def)
    have up: "union_periapsis z [a - 2 * pi, b, 1, - 1] = [a - 2 * pi, b, 1, - 1]"
      by (simp add: union_periapsis_def)
    have sa: "swap_apoapsis [a - 2 * pi, b, 1, - 1] = [a - 2 * pi, b, 1, - 1]"
      by (simp add: swap_apoapsis_def)
    have se: "swap_empty [a - 2 * pi, b, 1, - 1] = [a - 2 * pi, b, 1, - 1]"
      by (simp add: swap_empty_def)
    have fo: "full_orbit [a - 2 * pi, b, 1, - 1] = [- pi, pi, 1, - 1]"
      using assms(1) by (simp add: full_orbit_def)
    show ?thesis
      unfolding intersect_ranges_def ov ua up sa se fo
      using True pi_gt_zero by (simp add: count_ranges_def)
  next
    case False
    then have ua: "union_apoapsis z closed' [a, b, a, b] = [a, b, a, b]"
      by (auto simp add: union_apoapsis_def touches_apoapsis_def)
    have up: "union_periapsis z [a, b, a, b] = [a, b, 1, - 1]"
      using assms(1) by (simp add: union_periapsis_def)
    have sa: "swap_apoapsis [a, b, 1, - 1] = [a, b, 1, - 1]"
      by (simp add: swap_apoapsis_def)
    have se: "swap_empty [a, b, 1, - 1] = [a, b, 1, - 1]"
      by (simp add: swap_empty_def)
    have fo: "full_orbit [a, b, 1, - 1] = (if 2 * pi \<le> b - a then [- pi, pi, 1, - 1] else [a, b, 1, - 1])"
      by (simp add: full_orbit_def)
    show ?thesis
      unfolding intersect_ranges_def ov ua up sa se fo
      using False assms(1) pi_gt_zero by (auto simp add: count_ranges_def)
  qed
qed

lemma two_ranges_overlap:
  assumes "a < b" "(if closed' then - 2 * pi else - pi) \<le> a" "b \<le> pi"
    and "c < d" "- pi \<le> c" "d \<le> pi"
  shows "overlap [a, b, c, d] (full_range closed') = [a, b, c, d]"
  using assms pi_gt_zero
  by (auto simp add: overlap_def pick_def full_range_def max_def min_def split: if_splits)

lemma two_ranges_joined:
  assumes "a < b" "(if closed' then - 2 * pi else - pi) \<le> a" "b \<le> pi"
    and "c < d" "- pi \<le> c" "d \<le> pi"
    and "(closed' \<and> touches_apoapsis z [a, b, c, d]) \<or> b \<ge> c \<or> z (b - c)"
  shows "snd (intersect_ranges z [a, b, c, d] (full_range closed') closed') ! 2 = 1 \<and>
         snd (intersect_ranges z [a, b, c, d] (full_range closed') closed') ! 3 = - 1"
proof (cases "closed' \<and> touches_apoapsis z [a, b, c, d]")
  case True
  with assms(4) have ua: "union_apoapsis z closed' [a, b, c, d] =
      [min a (c - 2 * pi), max b (d - 2 * pi), 1, - 1]"
    by (simp add: union_apoapsis_def touches_apoapsis_def)
  show ?thesis
    unfolding intersect_ranges_def two_ranges_overlap [OF assms(1-6)] ua
    using tail_kept [of "[min a (c - 2 * pi), max b (d - 2 * pi), 1, - 1]" z]
    by (simp add: Let_def)
next
  case False
  with assms(4) have ua: "union_apoapsis z closed' [a, b, c, d] = [a, b, c, d]"
    by (auto simp add: union_apoapsis_def touches_apoapsis_def)
  from False assms(4,7) have up: "union_periapsis z [a, b, c, d] = [a, d, 1, - 1]"
    by (auto simp add: union_periapsis_def)
  have "union_periapsis z [a, b, c, d] = union_periapsis z (union_periapsis z [a, b, c, d])"
    by (simp add: up union_periapsis_def)
  with tail_kept [of "[a, d, 1, - 1]" z] up show ?thesis
    unfolding intersect_ranges_def two_ranges_overlap [OF assms(1-6)] ua
    by (simp add: Let_def)
qed

lemma two_ranges_apart:
  assumes "a < b" "(if closed' then - 2 * pi else - pi) \<le> a" "b \<le> pi"
    and "c < d" "- pi \<le> c" "d \<le> pi"
    and "\<not> (closed' \<and> touches_apoapsis z [a, b, c, d])" and "b < c" and "\<not> z (b - c)"
  shows "intersect_ranges z [a, b, c, d] (full_range closed') closed' =
           (2, if 2 * pi \<le> b - a then [- pi, pi, c, d] else [a, b, c, d])"
proof -
  from assms(4,7) have ua: "union_apoapsis z closed' [a, b, c, d] = [a, b, c, d]"
    by (auto simp add: union_apoapsis_def touches_apoapsis_def)
  from assms(8,9) have up: "union_periapsis z [a, b, c, d] = [a, b, c, d]"
    by (simp add: union_periapsis_def)
  from assms(6) have sa: "swap_apoapsis [a, b, c, d] = [a, b, c, d]"
    by (simp add: swap_apoapsis_def)
  from assms(1) have se: "swap_empty [a, b, c, d] = [a, b, c, d]"
    by (simp add: swap_empty_def)
  have fo: "full_orbit [a, b, c, d] = (if 2 * pi \<le> b - a then [- pi, pi, c, d] else [a, b, c, d])"
    by (simp add: full_orbit_def)
  show ?thesis
    unfolding intersect_ranges_def two_ranges_overlap [OF assms(1-6)] ua up sa se fo
    using assms(1,4) pi_gt_zero by (simp add: count_ranges_def)
qed

text \<open>
  C7, with the condition that makes it hold. For a well-formed range pair, intersecting
  it with the full range (\<open>-pi .. pi\<close>, or \<open>-2 pi .. 2 pi\<close> when the closed flag is
  set) returns the same ranges and the same count exactly when the merger has nothing to
  join in the pair.
\<close>

theorem intersect_full_range:
  assumes wf: "well_formed closed' fs"
  shows "intersect_ranges z fs (full_range closed') closed' = (count_ranges fs, fs) \<longleftrightarrow>
         settled z closed' fs"
proof -
  from wf have len: "length fs = 4" by (simp add: well_formed_def)
  obtain a b c d where fs: "fs = [a, b, c, d]"
    using list4 [OF len] by blast
  from wf fs have ab: "a < b" and b: "b \<le> pi" and a: "(if closed' then - 2 * pi else - pi) \<le> a"
    and snd: "(c = 1 \<and> d = - 1) \<or> (c < d \<and> - pi \<le> c \<and> d \<le> pi)"
    by (simp_all add: well_formed_def)
  from snd show ?thesis
  proof
    assume e: "c = 1 \<and> d = - 1"
    then have fs1: "fs = [a, b, 1, - 1]"
      using fs by simp
    have cnt: "count_ranges [a, b, 1, - 1] = 1"
      using ab by (simp add: count_ranges_def)
    from a b have span: "b - a \<le> 2 * pi \<or> closed'"
      by (auto split: if_splits)
    show ?thesis
      unfolding fs1 one_range [OF ab a b] cnt
      using ab a b pi_gt_zero
      by (auto simp add: settled_def touches_apoapsis_def split: if_splits)
  next
    assume t: "c < d \<and> - pi \<le> c \<and> d \<le> pi"
    then have cd: "c < d" "- pi \<le> c" "d \<le> pi" by simp_all
    have cnt: "count_ranges [a, b, c, d] = 2"
      using ab cd by (simp add: count_ranges_def)
    show ?thesis
    proof (cases "(closed' \<and> touches_apoapsis z [a, b, c, d]) \<or> b \<ge> c \<or> z (b - c)")
      case True
      from two_ranges_joined [OF ab a b cd True] cd(1)
      have "intersect_ranges z [a, b, c, d] (full_range closed') closed' \<noteq> (2, [a, b, c, d])"
        by auto
      moreover from True cd(1) have "\<not> settled z closed' [a, b, c, d]"
        by (auto simp add: settled_def)
      ultimately show ?thesis
        by (simp add: fs cnt)
    next
      case False
      then have n: "\<not> (closed' \<and> touches_apoapsis z [a, b, c, d])" "b < c" "\<not> z (b - c)"
        by auto
      show ?thesis
        unfolding fs two_ranges_apart [OF ab a b cd n] cnt
        using n cd ab a b pi_gt_zero
        by (auto simp add: settled_def split: if_splits)
    qed
  qed
qed

text \<open>
  A pair of two ranges on a closed orbit that stays away from apoapsis is returned as it is.
\<close>

theorem intersect_full_range_witness:
  "well_formed True [- (2 * pi / 3), - (pi / 2), pi / 2, 2 * pi / 3] \<and>
   settled (zero kepler) True [- (2 * pi / 3), - (pi / 2), pi / 2, 2 * pi / 3] \<and>
   intersect_ranges (zero kepler) [- (2 * pi / 3), - (pi / 2), pi / 2, 2 * pi / 3]
     (full_range True) True = (2, [- (2 * pi / 3), - (pi / 2), pi / 2, 2 * pi / 3])"
proof -
  let ?fs = "[- (2 * pi / 3), - (pi / 2), pi / 2, 2 * pi / 3]"
  have z1: "\<not> zero kepler (- (pi / 2) - pi / 2)"
    using pi_ge_two by (intro not_zero) simp
  have z2: "\<not> zero kepler (- (2 * pi / 3) + pi)"
    using pi_ge_two by (intro not_zero) simp
  have wf: "well_formed True ?fs"
    using pi_ge_two by (simp add: well_formed_def)
  have st: "settled (zero kepler) True ?fs"
    using pi_ge_two z1 z2 by (simp add: settled_def touches_apoapsis_def)
  have "count_ranges ?fs = 2"
    using pi_ge_two by (simp add: count_ranges_def)
  with intersect_full_range [OF wf, of "zero kepler"] wf st show ?thesis by simp
qed

text \<open>
  C7 as stated fails on a closed orbit: the two ranges \<open>-pi .. -pi/2\<close> and
  \<open>pi/2 .. pi\<close> are well formed, and the merger joins them across apoapsis into the
  one range \<open>-3 pi/2 .. -pi/2\<close>.
\<close>

theorem intersect_full_range_apoapsis:
  "well_formed True [- pi, - (pi / 2), pi / 2, pi] \<and>
   count_ranges [- pi, - (pi / 2), pi / 2, pi] = 2 \<and>
   intersect_ranges (zero kepler) [- pi, - (pi / 2), pi / 2, pi] (full_range True) True =
     (1, [- (3 * pi / 2), - (pi / 2), 1, - 1])"
proof -
  let ?fs = "[- pi, - (pi / 2), pi / 2, pi]"
  let ?z = "zero kepler"
  have wf: "well_formed True ?fs"
    using pi_ge_two by (simp add: well_formed_def)
  have cnt: "count_ranges ?fs = 2"
    using pi_ge_two by (simp add: count_ranges_def)
  have ov: "overlap ?fs (full_range True) = ?fs"
    using pi_ge_two by (simp add: overlap_def pick_def full_range_def min_def max_def)
  have ua: "union_apoapsis ?z True ?fs = [- (3 * pi / 2), - (pi / 2), 1, - 1]"
    using pi_ge_two by (simp add: union_apoapsis_def min_def max_def)
  have up: "union_periapsis ?z [- (3 * pi / 2), - (pi / 2), 1, - 1] = [- (3 * pi / 2), - (pi / 2), 1, - 1]"
    by (simp add: union_periapsis_def)
  have sa: "swap_apoapsis [- (3 * pi / 2), - (pi / 2), 1, - 1] = [- (3 * pi / 2), - (pi / 2), 1, - 1]"
    by (simp add: swap_apoapsis_def)
  have se: "swap_empty [- (3 * pi / 2), - (pi / 2), 1, - 1] = [- (3 * pi / 2), - (pi / 2), 1, - 1]"
    by (simp add: swap_empty_def)
  have fo: "full_orbit [- (3 * pi / 2), - (pi / 2), 1, - 1] = [- (3 * pi / 2), - (pi / 2), 1, - 1]"
    using pi_ge_two by (simp add: full_orbit_def)
  have "intersect_ranges ?z ?fs (full_range True) True = (1, [- (3 * pi / 2), - (pi / 2), 1, - 1])"
    unfolding intersect_ranges_def ov ua up sa se fo
    using pi_ge_two by (simp add: count_ranges_def)
  with wf cnt show ?thesis by simp
qed

subsection \<open>The range intersector\<close>

text \<open>
  C8. When one of the orbits is radial, \<^verbatim>\<open>intercept_intersect\<close> returns 0 at once and
  leaves the output array as it was: no range is written, and the outcome is a count of
  zero, not an error.
\<close>

theorem intercept_intersect_radial:
  "orbit_radial X orbit1 \<or> orbit_radial X orbit2 \<Longrightarrow>
   intercept_intersect X orbit1 orbit2 threshold fs = (0, fs)"
  by (simp add: intercept_intersect_def)

theorem intercept_intersect_radial_witness:
  "(orbit_radial kepler (planar 1 0 0) \<or> orbit_radial kepler (planar 1 1 0)) \<and>
   intercept_intersect kepler (planar 1 0 0) (planar 1 1 0) 1 [5, 6, 7, 8] = (0, [5, 6, 7, 8])"
  using intercept_intersect_radial [of kepler "planar 1 0 0" "planar 1 1 0" 1 "[5, 6, 7, 8]"]
  by (simp add: kepler_simps planar_simps eps_small)

text \<open>
  The count that \<^verbatim>\<open>intercept_intersect\<close> returns does not depend on the content of the
  output array at the call, and neither do the ranges it writes when the count is not 0.
\<close>

lemma intercept_intersect_count:
  "fst (intercept_intersect X orbit1 orbit2 threshold fs) =
   fst (intercept_intersect X orbit1 orbit2 threshold fs')"
  by (simp add: intercept_intersect_def Let_def)

lemma intercept_intersect_written:
  "fst (intercept_intersect X orbit1 orbit2 threshold fs) \<noteq> 0 \<Longrightarrow>
   snd (intercept_intersect X orbit1 orbit2 threshold fs) =
   snd (intercept_intersect X orbit1 orbit2 threshold fs')"
  by (auto simp add: intercept_intersect_def Let_def split: if_splits)

lemma band_circular: "band_ranges kepler 0 0 pi = [- 2 * pi, 2 * pi, 1, - 1]"
  by (simp add: band_ranges_def zero_0 kepler_simps)

lemma plane_coplanar:
  "plane_ranges kepler (planar gm1 p1 e1) (planar gm2 p2 e2) p e threshold = [- pi, pi, 1, - 1]"
  by (simp add: plane_ranges_def kepler_simps planar_simps eps_small Let_def)

lemma merge_full:
  "intersect_ranges z [- 2 * pi, 2 * pi, 1, - 1] [- pi, pi, 1, - 1] True = (1, [- pi, pi, 1, - 1])"
proof -
  have ov: "overlap [- 2 * pi, 2 * pi, 1, - 1] [- pi, pi, 1, - 1] = [- pi, pi, - pi, pi]"
    using pi_ge_two by (simp add: overlap_def pick_def)
  have ua: "union_apoapsis z True [- pi, pi, - pi, pi] = [- (3 * pi), pi, 1, - 1]"
    using pi_ge_two by (simp add: union_apoapsis_def)
  have up: "union_periapsis z [- (3 * pi), pi, 1, - 1] = [- (3 * pi), pi, 1, - 1]"
    by (simp add: union_periapsis_def)
  have sa: "swap_apoapsis [- (3 * pi), pi, 1, - 1] = [- (3 * pi), pi, 1, - 1]"
    by (simp add: swap_apoapsis_def)
  have se: "swap_empty [- (3 * pi), pi, 1, - 1] = [- (3 * pi), pi, 1, - 1]"
    by (simp add: swap_empty_def)
  have fo: "full_orbit [- (3 * pi), pi, 1, - 1] = [- pi, pi, 1, - 1]"
    using pi_ge_two by (simp add: full_orbit_def)
  show ?thesis
    unfolding intersect_ranges_def ov ua up sa se fo
    using pi_ge_two by (simp add: count_ranges_def)
qed

lemma circular_sees_all:
  "intercept_intersect kepler (planar 1 (7 / 4) 0) (planar 1 (3 / 2) (1 / 2)) (1 / 4) fs =
     (1, [- pi, pi, 1, - 1])"
proof -
  have "intercept_intersect kepler (planar 1 (7 / 4) 0) (planar 1 (3 / 2) (1 / 2)) (1 / 4) fs =
      intersect_ranges (zero kepler) (band_ranges kepler 0 0 pi)
        (plane_ranges kepler (planar 1 (7 / 4) 0) (planar 1 (3 / 2) (1 / 2)) (7 / 4) 0 (1 / 4)) True"
    using pi_ge_two
    by (simp add: intercept_intersect_def kepler_simps planar_simps DBL_EPSILON_def Let_def)
  then show ?thesis
    by (simp only: band_circular plane_coplanar merge_full)
qed

lemma merge_two:
  "intersect_ranges (zero kepler) [- (2 * pi / 3), - (pi / 2), pi / 2, 2 * pi / 3] [- pi, pi, 1, - 1] True =
     (2, [- (2 * pi / 3), - (pi / 2), pi / 2, 2 * pi / 3])"
proof -
  let ?fs = "[- (2 * pi / 3), - (pi / 2), pi / 2, 2 * pi / 3]"
  have ov: "overlap ?fs [- pi, pi, 1, - 1] = ?fs"
    using pi_ge_two by (simp add: overlap_def pick_def min_def max_def)
  have "\<not> zero kepler (- (2 * pi / 3) + pi)"
    using pi_ge_two by (intro not_zero) simp
  then have ua: "union_apoapsis (zero kepler) True ?fs = ?fs"
    using pi_ge_two by (simp add: union_apoapsis_def)
  have "\<not> zero kepler (- (pi / 2) - pi / 2)"
    using pi_ge_two by (intro not_zero) simp
  then have up: "union_periapsis (zero kepler) ?fs = ?fs"
    using pi_ge_two by (simp add: union_periapsis_def)
  have sa: "swap_apoapsis ?fs = ?fs"
    using pi_ge_two by (simp add: swap_apoapsis_def)
  have se: "swap_empty ?fs = ?fs"
    using pi_ge_two by (simp add: swap_empty_def)
  have fo: "full_orbit ?fs = ?fs"
    using pi_ge_two by (simp add: full_orbit_def)
  show ?thesis
    unfolding intersect_ranges_def ov ua up sa se fo
    using pi_ge_two by (simp add: count_ranges_def)
qed

lemma band_ellipse:
  "band_ranges kepler (1 / 2) (pi / 2) (2 * pi / 3) = [- (2 * pi / 3), - (pi / 2), pi / 2, 2 * pi / 3]"
proof -
  have "\<not> zero kepler (pi / 2)"
    using pi_ge_two by (intro not_zero) simp
  then show ?thesis
    using pi_ge_two by (simp add: band_ranges_def kepler_simps)
qed

lemma ellipse_sees_two:
  "intercept_intersect kepler (planar 1 (3 / 2) (1 / 2)) (planar 1 (7 / 4) 0) (1 / 4) fs =
     (2, [- (2 * pi / 3), - (pi / 2), pi / 2, 2 * pi / 3])"
proof -
  have "intercept_intersect kepler (planar 1 (3 / 2) (1 / 2)) (planar 1 (7 / 4) 0) (1 / 4) fs =
      intersect_ranges (zero kepler) (band_ranges kepler (1 / 2) (pi / 2) (2 * pi / 3))
        (plane_ranges kepler (planar 1 (3 / 2) (1 / 2)) (planar 1 (7 / 4) 0) (3 / 2) (1 / 2) (1 / 4)) True"
    using pi_ge_two
    by (simp add: intercept_intersect_def kepler_simps planar_simps DBL_EPSILON_def Let_def)
  then show ?thesis
    by (simp only: band_ellipse plane_coplanar merge_two)
qed

lemma pruned:
  "intercept_intersect kepler (planar 1 (40 / 3) (1 / 3)) (planar 1 (400 / 3) (1 / 3)) 1 fs = (0, fs)"
  by (simp add: intercept_intersect_def kepler_simps planar_simps DBL_EPSILON_def Let_def)

subsection \<open>The orchestrator\<close>

text \<open>
  When the range intersector returns 0 for orbit 1 against orbit 2, \<^verbatim>\<open>intercept_orbit\<close>
  returns without a call of the time windower or the searcher: the array of intercepts
  is as it was. The value returned is \<open>t1\<close> converted to \<^verbatim>\<open>int\<close>.
\<close>

lemma orbit_ranges_none:
  "fst (intercept_intersect X orbit1 orbit2 threshold fs) = 0 \<Longrightarrow>
   orbit_ranges X orbit1 orbit2 threshold fs0 = None"
proof -
  assume "fst (intercept_intersect X orbit1 orbit2 threshold fs) = 0"
  with intercept_intersect_count [of X orbit1 orbit2 threshold fs "take 4 fs0"]
  have "fst (intercept_intersect X orbit1 orbit2 threshold (take 4 fs0)) = 0"
    by simp
  then show ?thesis
    by (cases "intercept_intersect X orbit1 orbit2 threshold (take 4 fs0)")
      (simp add: orbit_ranges_def)
qed

lemma intercept_orbit_early:
  "fst (intercept_intersect X orbit1 orbit2 threshold fs) = 0 \<Longrightarrow>
   intercept_orbit X fs0 orbit1 orbit2 t0 t1 threshold target_distance intercepts
     max_intercepts max_steps = Some (trunc_int t1, intercepts)"
  by (simp add: intercept_orbit_def orbit_ranges_none)

text \<open>
  C1, on the code. For an orbit between the radii 10 and 20 and an orbit between the
  radii 100 and 200, with the threshold 1 and the search window ending at \<open>t1 = 1000\<close>,
  \<^verbatim>\<open>intercept_orbit\<close> returns 1000, not 0 intercepts.
\<close>

theorem early_return_value:
  "intercept_orbit kepler fs0 (planar 1 (40 / 3) (1 / 3)) (planar 1 (400 / 3) (1 / 3))
     t0 1000 1 target_distance intercepts max_intercepts max_steps = Some (1000, intercepts)"
  by (simp add: intercept_orbit_def orbit_ranges_def pruned trunc_int_def)

text \<open>
  Both halves of the array of eight doubles hold the ranges of orbit 1 against orbit 2:
  the second call of the range intersector has the same orbit arguments as the first.
\<close>

lemma orbit_ranges_halves:
  assumes "orbit_ranges X orbit1 orbit2 threshold fs0 = Some fs"
  shows "fs = snd (intercept_intersect X orbit1 orbit2 threshold fs1) @
              snd (intercept_intersect X orbit1 orbit2 threshold fs1)"
proof -
  let ?a = "intercept_intersect X orbit1 orbit2 threshold (take 4 fs0)"
  let ?b = "intercept_intersect X orbit1 orbit2 threshold (drop 4 fs0)"
  from assms have a: "fst ?a \<noteq> 0" and b: "fst ?b \<noteq> 0" and fs: "fs = snd ?a @ snd ?b"
    by (auto simp add: orbit_ranges_def split: prod.splits if_splits)
  from intercept_intersect_written [OF a, of fs1] intercept_intersect_written [OF b, of fs1] fs
  show ?thesis by simp
qed

text \<open>
  C2, on the code. For a circular orbit of radius 7/4 and a coplanar ellipse between the
  radii 1 and 3, with the threshold 1/4, the second four doubles are the range
  \<open>-pi .. pi\<close> of the circular orbit once more, where the range intersector called for
  the ellipse against the circular orbit gives the two ranges \<open>-2 pi/3 .. -pi/2\<close> and
  \<open>pi/2 .. 2 pi/3\<close>.
\<close>

theorem orbit_ranges_same_orbit:
  "orbit_ranges kepler (planar 1 (7 / 4) 0) (planar 1 (3 / 2) (1 / 2)) (1 / 4) fs0 =
     Some [- pi, pi, 1, - 1, - pi, pi, 1, - 1] \<and>
   snd (intercept_intersect kepler (planar 1 (3 / 2) (1 / 2)) (planar 1 (7 / 4) 0) (1 / 4) (drop 4 fs0)) =
     [- (2 * pi / 3), - (pi / 2), pi / 2, 2 * pi / 3]"
  by (simp add: orbit_ranges_def circular_sees_all ellipse_sees_two)

subsection \<open>The time windower\<close>


lemma walk_step_stop:
  "walk_step W s = Inr (stop, s') \<Longrightarrow> stop = (exhausted W s \<and> \<not> w_elliptic W (advance_of W s))"
  by (auto simp add: walk_step_def Let_def split: if_splits)






























































subsection \<open>The searcher\<close>

lemma search_step_t_end:
  "q_t1 Q \<le> s_t_end s \<Longrightarrow> q_t1 Q \<le> s_t_end (snd (search_step X Q step s))"
  by (auto simp add: search_step_def proceed_def Let_def le_max_iff_disj)

lemma search_loop_t_end:
  "q_t1 Q \<le> s_t_end s \<Longrightarrow> q_t1 Q \<le> s_t_end (search_loop X Q k step s)"
proof (induction k arbitrary: step s)
  case 0
  then show ?case by simp
next
  case (Suc k)
  obtain stop s' where st: "search_step X Q step s = (stop, s')"
    by (cases "search_step X Q step s")
  with search_step_t_end [OF Suc.prems, of X step] have "q_t1 Q \<le> s_t_end s'"
    by simp
  with Suc.IH [where s = s' and step = "step + 1"] st show ?case
    by simp
qed

text \<open>
  C10. The time that \<^verbatim>\<open>intercept_search\<close> returns is \<open>t1\<close> or later, for every input:
  the horizon starts at \<open>t1\<close> and every assignment to it is a maximum with its old
  value.
\<close>

theorem intercept_search_consumes:
  "t1 \<le> fst (intercept_search X orbit1 orbit2 t0 t1 threshold target_distance max_steps)"
proof -
  let ?Q = "\<lparr>q_orbit1 = orbit1, q_orbit2 = orbit2, q_t0 = t0, q_t1 = t1,
             q_threshold = threshold, q_target_distance = target_distance,
             q_max_steps = max_steps\<rparr>"
  have "q_t1 ?Q \<le> s_t_end (search_init X ?Q)"
    by (simp add: search_init_def)
  then have "q_t1 ?Q \<le> s_t_end (search_run X ?Q)"
    unfolding search_run_def by (rule search_loop_t_end)
  then show ?thesis
    by (simp add: intercept_search_def Let_def)
qed







text \<open>
  The branch below the threshold: the step \<^verbatim>\<open>dt\<close> is computed, and the \<^verbatim>\<open>break\<close> leaves the
  loop before \<^verbatim>\<open>t += dt\<close>, so the time of the state is the time of the sample.
\<close>

lemma search_step_refine:
  assumes "\<not> zero X (square X (distance (evaluate X Q (s_t s)) - max 0 (q_target_distance Q)) /
                       square X (q_threshold Q))"
    and "trunc_int (sign X (speed (evaluate X Q (s_t s))) *
                    sign X (distance (evaluate X Q (s_t s)) - q_target_distance Q)) < 0"
    and "distance (evaluate X Q (s_t s)) < q_threshold Q"
    and "q_t0 Q < s_t_end s"
  shows "search_step X Q step s =
     (True, s\<lparr>s_E := (eccentric_at X Q (q_orbit1 Q) (s_t s), eccentric_at X Q (q_orbit2 Q) (s_t s)),
               s_last := Some (evaluate X Q (s_t s)), s_evals := s_evals s + 1,
               s_dt := (q_target_distance Q - distance (evaluate X Q (s_t s))) /
                         speed (evaluate X Q (s_t s))\<rparr>)"
  using assms by (simp add: search_step_def Let_def)

lemma search_loop_pos:
  "0 < k \<Longrightarrow> search_loop X Q k step s =
     (case search_step X Q step s of
        (stop, s') \<Rightarrow> if stop then s' else search_loop X Q (k - 1) (step + 1) s')"
  by (cases k) (simp_all split: prod.splits)

lemma chase_sample:
  "evaluate kepler chase 0 =
     \<lparr>position = ((1, 0, 0, 0), (3 / 20, - (1 / 5), 0, 0)),
      velocity = ((0, 2, 0, 0), (16 / 5, 12 / 5, 0, 0)),
      relative_position = (- (17 / 20), - (1 / 5), 0, 0),
      relative_velocity = (16 / 5, 2 / 5, 0, 0),
      distance = sqrt (61 / 80), speed = - (14 / 5) / sqrt (61 / 80)\<rparr>"
  by (simp add: evaluate_def eccentric_at_def mean_motion_of_def chase_def tilted_def
      kepler_simps kepler_state planar_simps semi_major_def Let_def)

lemma chase_distance:
  "0 < sqrt (61 / 80 :: real)" "sqrt (61 / 80 :: real) < 1"
  "sqrt (61 / 80) * sqrt (61 / 80) = (61 / 80 :: real)"
proof -
  show "0 < sqrt (61 / 80 :: real)" by simp
  have "sqrt (61 / 80 :: real) < sqrt 1"
    by (rule real_sqrt_less_mono) simp
  then show "sqrt (61 / 80 :: real) < 1" by simp
  show "sqrt (61 / 80) * sqrt (61 / 80) = (61 / 80 :: real)" by simp
qed

lemma chase_step:
  "search_step kepler chase 0 (search_init kepler chase) =
     (True, (search_init kepler chase)\<lparr>s_E := (0, 0),
               s_last := Some (evaluate kepler chase 0), s_evals := 1, s_dt := 61 / 224\<rparr>)"
proof -
  let ?s = "search_init kepler chase"
  let ?d = "sqrt (61 / 80 :: real)"
  have t: "s_t ?s = 0" and te: "s_t_end ?s = 1" and ev: "s_evals ?s = 0"
    by (simp_all add: search_init_def chase_def)
  have d: "distance (evaluate kepler chase 0) = ?d"
    and v: "speed (evaluate kepler chase 0) = - (14 / 5) / ?d"
    by (simp_all add: chase_sample)
  have q: "q_target_distance chase = 0" "q_threshold chase = 1" "q_t0 chase = 0"
    by (simp_all add: chase_def)
  have neg: "- (14 / 5) / ?d < 0"
    using chase_distance(1) by (simp add: field_simps)
  have c1: "\<not> zero kepler (square kepler (?d - max 0 0) / square kepler 1)"
    by (simp add: kepler_zero kepler_simps chase_distance(3) DBL_EPSILON_def)
  have c2: "trunc_int (sign kepler (- (14 / 5) / ?d) * sign kepler (?d - 0)) < 0"
    using neg chase_distance(1) by (simp add: kepler_simps trunc_int_def)
  have e: "eccentric_at kepler chase (q_orbit1 chase) 0 = 0"
    "eccentric_at kepler chase (q_orbit2 chase) 0 = 0"
    by (simp_all add: eccentric_at_def kepler_simps chase_def tilted_def planar_simps)
  have dt: "(0 - ?d) / (- (14 / 5) / ?d) = 61 / 224"
    using chase_distance(1,3) by (simp add: field_simps)
  from search_step_refine [of kepler chase ?s 0] c1 c2 chase_distance(2)
  show ?thesis
    by (simp add: t te ev d v q e dt)
qed

text \<open>
  C5, on the code. Two circular orbits, the first sample at time 0 approaching at the
  distance \<open>sqrt (61/80)\<close>, below the threshold 1, with the target distance 0: the step
  to the target distance is 61/224, and the search stops with the recorded time 0, the
  time of the sample, not the extrapolated time.
\<close>

theorem refinement_step_discarded:
  "s_t (search_run kepler chase) = 0 \<and> s_dt (search_run kepler chase) = 61 / 224 \<and>
   intercept_search kepler (planar 4 1 0) tilted 0 1 1 0 100 =
     (1, \<lparr>measured = Some (evaluate kepler chase 0), mu = 4, time = 0, E1 = 0, E2 = 0\<rparr>)"
proof -
  have run: "search_run kepler chase =
      (search_init kepler chase)\<lparr>s_E := (0, 0),
               s_last := Some (evaluate kepler chase 0), s_evals := 1, s_dt := 61 / 224\<rparr>"
    by (simp add: search_run_def chase_def [THEN arg_cong, of q_max_steps] search_loop_pos chase_step)
  have Q: "\<lparr>q_orbit1 = planar 4 1 0, q_orbit2 = tilted, q_t0 = 0, q_t1 = 1,
             q_threshold = 1, q_target_distance = 0, q_max_steps = 100\<rparr> = chase"
    by (simp add: chase_def)
  show ?thesis
    by (simp add: intercept_search_def Q run search_init_def Let_def kepler_simps planar_simps)
      (simp add: chase_def)
qed

end
